theory Spec2Isabelle
  imports Complex_Main
begin

section \<open>Tensors and the tensor operations used by the predictor\<close>

text \<open>
  The source file \<^verbatim>\<open>src/models/latent_dynamics_model.py\<close> works on PyTorch tensors.
  A tensor is modelled by its shape and its elements in row-major order. The elements
  are real numbers, and every tensor has the one floating dtype of the network's
  parameters. The linear layers, \<^verbatim>\<open>relu\<close> and \<open>+\<close> compute on them exactly; only
  \<^verbatim>\<open>torch.sigmoid\<close>, whose range the specification bounds, is modelled with the rounding
  of single precision. NaN is outside this model.
\<close>

record tensor =
  shape :: "nat list"
  elems :: "real list"

definition valid :: "tensor \<Rightarrow> bool" where
  "valid t \<longleftrightarrow> length (elems t) = prod_list (shape t)"

text \<open>The only exception the tensor library raises on these paths.\<close>

datatype error = RuntimeError

text \<open>\<open>chunks w n xs\<close>: the first \<open>n\<close> consecutive blocks of width \<open>w\<close> of \<open>xs\<close>.\<close>

fun chunks :: "nat \<Rightarrow> nat \<Rightarrow> 'a list \<Rightarrow> 'a list list" where
  "chunks w 0 xs = []"
| "chunks w (Suc n) xs = take w xs # chunks w n (drop w xs)"

text \<open>The vectors along the last axis of a tensor that has at least one axis.\<close>

definition rows :: "tensor \<Rightarrow> real list list" where
  "rows t = chunks (last (shape t)) (prod_list (butlast (shape t))) (elems t)"

text \<open>
  \<^verbatim>\<open>torch.cat([a, b], dim=-1)\<close>. A zero-dimensional tensor cannot be concatenated; a
  one-dimensional empty tensor (shape \<open>[0]\<close>) is skipped; otherwise all axes but the last
  must agree, and the rows are joined pairwise.
\<close>

definition cat :: "tensor \<Rightarrow> tensor \<Rightarrow> error + tensor" where
  "cat a b =
     (if shape a = [] \<or> shape b = [] then Inl RuntimeError
      else if shape a = [0] then Inr b
      else if shape b = [0] then Inr a
      else if butlast (shape a) \<noteq> butlast (shape b) then Inl RuntimeError
      else Inr \<lparr>shape = butlast (shape a) @ [last (shape a) + last (shape b)],
                elems = concat (map2 (@) (rows a) (rows b))\<rparr>)"

text \<open>
  \<^verbatim>\<open>nn.Linear(in_features, out_features)\<close>: the affine map \<open>y = W x + b\<close> applied to
  every row. \<open>weight l k j\<close> is the entry of the \<open>out_features \<times> in_features\<close> matrix in
  row \<open>k\<close> and column \<open>j\<close>, \<open>bias l k\<close> the \<open>k\<close>-th offset. The call raises when the
  input's last axis is not \<open>in_features\<close> wide.
\<close>

record Linear =
  in_features :: nat
  out_features :: nat
  weight :: "nat \<Rightarrow> nat \<Rightarrow> real"
  bias :: "nat \<Rightarrow> real"

definition nn_Linear :: "nat \<Rightarrow> nat \<Rightarrow> (nat \<Rightarrow> nat \<Rightarrow> real) \<times> (nat \<Rightarrow> real) \<Rightarrow> Linear" where
  "nn_Linear i o' wb = \<lparr>in_features = i, out_features = o', weight = fst wb, bias = snd wb\<rparr>"

definition Linear_row :: "Linear \<Rightarrow> real list \<Rightarrow> real list" where
  "Linear_row l r =
     map (\<lambda>k. sum_list (map (\<lambda>j. weight l k j * r ! j) [0..<in_features l]) + bias l k)
       [0..<out_features l]"

definition Linear_call :: "Linear \<Rightarrow> tensor \<Rightarrow> error + tensor" where
  "Linear_call l x =
     (if shape x = [] \<or> last (shape x) \<noteq> in_features l then Inl RuntimeError
      else Inr \<lparr>shape = butlast (shape x) @ [out_features l],
                elems = concat (map (Linear_row l) (rows x))\<rparr>)"

text \<open>\<^verbatim>\<open>torch.relu\<close>, element by element.\<close>

definition relu :: "tensor \<Rightarrow> tensor" where
  "relu x = x\<lparr>elems := map (max 0) (elems x)\<rparr>"

text \<open>
  Single precision (IEEE binary32). \<open>rne\<close> rounds a real number to the nearest integer,
  a tie to the even one. \<open>round32 x\<close> is the binary32 number nearest to \<open>x\<close>: 24
  significant bits, the unit in the last place never below \<open>2 powi - 149\<close> (the
  subnormal numbers), and \<open>None\<close> for a result of magnitude \<open>2 ^ 128\<close> or more, which
  is an infinity.
\<close>

definition rne :: "real \<Rightarrow> int" where
  "rne x =
     (let f = \<lfloor>x\<rfloor>
      in if x - of_int f < 1 / 2 then f
         else if 1 / 2 < x - of_int f then f + 1
         else if even f then f else f + 1)"

definition ulp_exponent :: "real \<Rightarrow> int" where
  "ulp_exponent x = max \<lfloor>log 2 \<bar>x\<bar>\<rfloor> (- 126) - 23"

definition round32 :: "real \<Rightarrow> real option" where
  "round32 x =
     (if x = 0 then Some 0
      else let y = of_int (rne (x / 2 powi ulp_exponent x)) * 2 powi ulp_exponent x
           in if 2 ^ 128 \<le> \<bar>y\<bar> then None else Some y)"

text \<open>
  \<^verbatim>\<open>torch.sigmoid\<close> on a single-precision tensor, element by element: the logistic
  function \<open>1 / (1 + exp (- v))\<close> evaluated in binary32, the exponential, the sum and the
  quotient each rounded to nearest. An exponential or a sum that overflows is \<open>+\<infinity>\<close>,
  and the quotient \<open>1 / \<infinity>\<close> is 0.
\<close>

definition sigmoid32 :: "real \<Rightarrow> real" where
  "sigmoid32 v =
     (case round32 (exp (- v)) of
        None \<Rightarrow> 0
      | Some t \<Rightarrow>
          (case round32 (1 + t) of
             None \<Rightarrow> 0
           | Some s \<Rightarrow> (case round32 (1 / s) of None \<Rightarrow> 0 | Some q \<Rightarrow> q)))"

definition sigmoid :: "tensor \<Rightarrow> tensor" where
  "sigmoid x = x\<lparr>elems := map sigmoid32 (elems x)\<rparr>"

text \<open>
  \<open>a + b\<close> on tensors, with broadcasting: the shapes are aligned at the last axis, two
  aligned sizes must be equal or one of them 1, and a missing or size-1 axis is repeated.
  \<open>broadcast_rev\<close> works on the reversed shapes.
\<close>

fun broadcast_rev :: "nat list \<Rightarrow> nat list \<Rightarrow> nat list option" where
  "broadcast_rev [] ys = Some ys"
| "broadcast_rev (x # xs) [] = Some (x # xs)"
| "broadcast_rev (x # xs) (y # ys) =
     (if x = y \<or> y = 1 then map_option ((#) x) (broadcast_rev xs ys)
      else if x = 1 then map_option ((#) y) (broadcast_rev xs ys)
      else None)"

definition broadcast_shapes :: "nat list \<Rightarrow> nat list \<Rightarrow> nat list option" where
  "broadcast_shapes s1 s2 = map_option rev (broadcast_rev (rev s1) (rev s2))"

text \<open>\<open>expand s t xs\<close>: the elements \<open>xs\<close> of shape \<open>s\<close> repeated to the shape \<open>t\<close>
  of the same rank.\<close>

fun expand :: "nat list \<Rightarrow> nat list \<Rightarrow> 'a list \<Rightarrow> 'a list" where
  "expand (s # ss) (t # ts) xs =
     (if s = t then concat (map (expand ss ts) (chunks (prod_list ss) s xs))
      else concat (replicate t (expand ss ts xs)))"
| "expand ss ts xs = xs"

definition expand_to :: "nat list \<Rightarrow> tensor \<Rightarrow> real list" where
  "expand_to sh t =
     expand (replicate (length sh - length (shape t)) 1 @ shape t) sh (elems t)"

definition tensor_add :: "tensor \<Rightarrow> tensor \<Rightarrow> error + tensor" where
  "tensor_add a b =
     (case broadcast_shapes (shape a) (shape b) of
        None \<Rightarrow> Inl RuntimeError
      | Some sh \<Rightarrow>
          Inr \<lparr>shape = sh, elems = map2 (+) (expand_to sh a) (expand_to sh b)\<rparr>)"

section \<open>The collaborators from \<^verbatim>\<open>src.utils\<close>\<close>

datatype device = CPU | CUDA | MPS

text \<open>
  Modelled from the spec: \<^verbatim>\<open>get_device\<close> of \<^verbatim>\<open>src.utils\<close> is not part of the source
  file. It takes an optional device and returns a concrete one, the best available
  (\<open>best\<close>, a fact of the host) when none is given.
\<close>

definition get_device :: "device \<Rightarrow> device option \<Rightarrow> device" where
  "get_device best d = (case d of None \<Rightarrow> best | Some dv \<Rightarrow> dv)"

text \<open>\<^verbatim>\<open>t.to(device)\<close> moves a tensor; its shape and values are unchanged.\<close>

definition tensor_to :: "tensor \<Rightarrow> device \<Rightarrow> tensor" where
  "tensor_to t d = t"

text \<open>
  Modelled from the spec: \<^verbatim>\<open>HashedTensor\<close> of \<^verbatim>\<open>src.utils\<close> is not part of the source
  file. It wraps one tensor; two keys are equal iff the wrapped tensors have the same
  shape and the same elements, and the hash agrees with that equality. Equality of the
  datatype is exactly this.
\<close>

datatype HashedTensor = HashedTensor tensor

section \<open>Python dictionaries\<close>

text \<open>
  A \<^verbatim>\<open>dict\<close> as the list of its entries in insertion order. \<open>d[k] = v\<close> replaces the
  value of an entry whose key equals \<open>k\<close> and appends a new entry otherwise;
  \<open>k in d\<close> and \<open>d[k]\<close> find the first entry whose key equals \<open>k\<close>.
\<close>

type_synonym ('k, 'v) dict = "('k \<times> 'v) list"

fun dict_set :: "'k \<Rightarrow> 'v \<Rightarrow> ('k, 'v) dict \<Rightarrow> ('k, 'v) dict" where
  "dict_set k v [] = [(k, v)]"
| "dict_set k v ((k', v') # d) =
     (if k' = k then (k', v) # d else (k', v') # dict_set k v d)"

definition dict_get :: "('k, 'v) dict \<Rightarrow> 'k \<Rightarrow> 'v option" where
  "dict_get d k = map_of d k"

definition dict_keys :: "('k, 'v) dict \<Rightarrow> 'k list" where
  "dict_keys d = map fst d"

section \<open>The class \<^verbatim>\<open>LatentDynamicsModel\<close>\<close>

type_synonym triple = "tensor \<times> tensor \<times> tensor"

record LatentDynamicsModel =
  delta_mode :: bool
  device :: device
  fc1 :: Linear
  fc2 :: Linear
  latent_out :: Linear
  reward_out :: Linear
  term_out :: Linear
  memoize_on :: bool
  memos :: "(HashedTensor, triple) dict"

text \<open>
  The values \<^verbatim>\<open>nn.Linear\<close> draws for its weights and biases at construction (and any
  values training puts there later) are an argument of the constructor.
\<close>

record initial_values =
  fc1_values :: "(nat \<Rightarrow> nat \<Rightarrow> real) \<times> (nat \<Rightarrow> real)"
  fc2_values :: "(nat \<Rightarrow> nat \<Rightarrow> real) \<times> (nat \<Rightarrow> real)"
  latent_out_values :: "(nat \<Rightarrow> nat \<Rightarrow> real) \<times> (nat \<Rightarrow> real)"
  reward_out_values :: "(nat \<Rightarrow> nat \<Rightarrow> real) \<times> (nat \<Rightarrow> real)"
  term_out_values :: "(nat \<Rightarrow> nat \<Rightarrow> real) \<times> (nat \<Rightarrow> real)"

definition init ::
  "device \<Rightarrow> initial_values \<Rightarrow> nat \<Rightarrow> nat \<Rightarrow> bool \<Rightarrow> device option \<Rightarrow> LatentDynamicsModel" where
  "init best vs latent_state_dim action_dim dm dev =
     \<lparr>delta_mode = dm,
      device = get_device best dev,
      fc1 = nn_Linear (latent_state_dim + action_dim) 256 (fc1_values vs),
      fc2 = nn_Linear 256 32 (fc2_values vs),
      latent_out = nn_Linear 32 latent_state_dim (latent_out_values vs),
      reward_out = nn_Linear 32 1 (reward_out_values vs),
      term_out = nn_Linear 32 1 (term_out_values vs),
      memoize_on = False,
      memos = []\<rparr>"

definition start_memoize :: "LatentDynamicsModel \<Rightarrow> LatentDynamicsModel" where
  "start_memoize self = self\<lparr>memoize_on := True\<rparr>"

definition stop_memoize :: "LatentDynamicsModel \<Rightarrow> LatentDynamicsModel" where
  "stop_memoize self = self\<lparr>memoize_on := False\<rparr>"

text \<open>
  \<^verbatim>\<open>set_memo\<close> builds the key from the concatenation, which may raise, and then
  assigns into the dictionary. The first component of the result is the exception or the
  normal return, the second the object afterwards.
\<close>

definition set_memo ::
  "LatentDynamicsModel \<Rightarrow> tensor \<Rightarrow> tensor \<Rightarrow> tensor \<Rightarrow> tensor \<Rightarrow> tensor
     \<Rightarrow> (error + unit) \<times> LatentDynamicsModel" where
  "set_memo self latent_obs action latent_next_obs reward trm =
     (case cat latent_obs action of
        Inl e \<Rightarrow> (Inl e, self)
      | Inr x \<Rightarrow>
          (Inr (),
           self\<lparr>memos := dict_set (HashedTensor x) (latent_next_obs, reward, trm) (memos self)\<rparr>))"

definition clear_memos :: "LatentDynamicsModel \<Rightarrow> LatentDynamicsModel" where
  "clear_memos self = self\<lparr>memos := []\<rparr>"

text \<open>
  \<^verbatim>\<open>forward\<close>, statement by statement. An exception leaves the object as it was: the
  only assignment to \<^verbatim>\<open>self.memos\<close> is the last statement before the return.
\<close>

definition forward ::
  "LatentDynamicsModel \<Rightarrow> tensor \<Rightarrow> tensor
     \<Rightarrow> (error + tensor \<times> tensor \<times> tensor \<times> bool) \<times> LatentDynamicsModel" where
  "forward self latent_obs0 action0 =
     (let latent_obs = tensor_to latent_obs0 (device self);
          action = tensor_to action0 (device self)
      in case cat latent_obs action of
        Inl e \<Rightarrow> (Inl e, self)
      | Inr x \<Rightarrow>
          (case (if memoize_on self then dict_get (memos self) (HashedTensor x) else None) of
             Some (n, r, t) \<Rightarrow> (Inr (n, r, t, True), self)
           | None \<Rightarrow>
               (case Linear_call (fc1 self) x of
                  Inl e \<Rightarrow> (Inl e, self)
                | Inr x1 \<Rightarrow>
               (case Linear_call (fc2 self) (relu x1) of
                  Inl e \<Rightarrow> (Inl e, self)
                | Inr x2 \<Rightarrow>
               (case Linear_call (latent_out self) (relu x2) of
                  Inl e \<Rightarrow> (Inl e, self)
                | Inr d \<Rightarrow>
               (case (if delta_mode self then tensor_add latent_obs d else Inr d) of
                  Inl e \<Rightarrow> (Inl e, self)
                | Inr pred_latent_next_obs \<Rightarrow>
               (case Linear_call (reward_out self) (relu x2) of
                  Inl e \<Rightarrow> (Inl e, self)
                | Inr pred_reward \<Rightarrow>
               (case Linear_call (term_out self) (relu x2) of
                  Inl e \<Rightarrow> (Inl e, self)
                | Inr z \<Rightarrow>
                    (let pred_terminate = sigmoid z;
                         self' = (if memoize_on self
                                  then self\<lparr>memos := dict_set (HashedTensor x)
                                         (pred_latent_next_obs, pred_reward, pred_terminate)
                                         (memos self)\<rparr>
                                  else self)
                     in (Inr (pred_latent_next_obs, pred_reward, pred_terminate, False),
                         self'))))))))))"

text \<open>
  \<^verbatim>\<open>run\<close> calls the module, and \<^verbatim>\<open>nn.Module.__call__\<close> with no hooks registered calls
  \<^verbatim>\<open>forward\<close>.
\<close>

definition Module_call ::
  "LatentDynamicsModel \<Rightarrow> tensor \<Rightarrow> tensor
     \<Rightarrow> (error + tensor \<times> tensor \<times> tensor \<times> bool) \<times> LatentDynamicsModel" where
  "Module_call self latent_obs action = forward self latent_obs action"

definition run ::
  "LatentDynamicsModel \<Rightarrow> tensor \<Rightarrow> tensor
     \<Rightarrow> (error + tensor \<times> tensor \<times> tensor \<times> bool) \<times> LatentDynamicsModel" where
  "run self latent_obs action = Module_call self latent_obs action"

section \<open>Notions used to state the properties\<close>

text \<open>
  The part of \<^verbatim>\<open>forward\<close> that evaluates the layers (the statements from
  \<^verbatim>\<open>x = torch.relu(self.fc1(x))\<close> to \<^verbatim>\<open>pred_terminate = ...\<close>), split into the hidden
  representation, the three heads, and the triple they give. \<open>forward_network\<close> below
  proves that \<^verbatim>\<open>forward\<close> is built from them.
\<close>

definition hidden :: "LatentDynamicsModel \<Rightarrow> tensor \<Rightarrow> error + tensor" where
  "hidden self x =
     (case Linear_call (fc1 self) x of
        Inl e \<Rightarrow> Inl e
      | Inr x1 \<Rightarrow>
          (case Linear_call (fc2 self) (relu x1) of
             Inl e \<Rightarrow> Inl e
           | Inr x2 \<Rightarrow> Inr (relu x2)))"

definition state_head :: "LatentDynamicsModel \<Rightarrow> tensor \<Rightarrow> error + tensor" where
  "state_head self x =
     (case hidden self x of Inl e \<Rightarrow> Inl e | Inr h \<Rightarrow> Linear_call (latent_out self) h)"

definition reward_head :: "LatentDynamicsModel \<Rightarrow> tensor \<Rightarrow> error + tensor" where
  "reward_head self x =
     (case hidden self x of Inl e \<Rightarrow> Inl e | Inr h \<Rightarrow> Linear_call (reward_out self) h)"

definition term_head :: "LatentDynamicsModel \<Rightarrow> tensor \<Rightarrow> error + tensor" where
  "term_head self x =
     (case hidden self x of Inl e \<Rightarrow> Inl e | Inr h \<Rightarrow> Linear_call (term_out self) h)"

definition network :: "LatentDynamicsModel \<Rightarrow> tensor \<Rightarrow> tensor \<Rightarrow> error + triple" where
  "network self latent_obs x =
     (case state_head self x of
        Inl e \<Rightarrow> Inl e
      | Inr d \<Rightarrow>
          (case (if delta_mode self then tensor_add latent_obs d else Inr d) of
             Inl e \<Rightarrow> Inl e
           | Inr n \<Rightarrow>
               (case reward_head self x of
                  Inl e \<Rightarrow> Inl e
                | Inr r \<Rightarrow>
                    (case term_head self x of
                       Inl e \<Rightarrow> Inl e
                     | Inr z \<Rightarrow> Inr (n, r, sigmoid z)))))"

text \<open>A call is a memo hit when memoization is on and the key of the input is stored.\<close>

definition memo_hit :: "LatentDynamicsModel \<Rightarrow> tensor \<Rightarrow> tensor \<Rightarrow> bool" where
  "memo_hit self latent_obs action =
     (case cat latent_obs action of
        Inl e \<Rightarrow> False
      | Inr x \<Rightarrow> memoize_on self \<and> dict_get (memos self) (HashedTensor x) \<noteq> None)"

text \<open>
  The layer widths that \<^verbatim>\<open>__init__\<close> fixes for \<^verbatim>\<open>latent_state_dim = d\<close> and
  \<^verbatim>\<open>action_dim = a\<close>; no method assigns to a layer afterwards.
\<close>

definition constructed :: "nat \<Rightarrow> nat \<Rightarrow> LatentDynamicsModel \<Rightarrow> bool" where
  "constructed d a self \<longleftrightarrow>
     in_features (fc1 self) = d + a \<and> out_features (fc1 self) = 256 \<and>
     in_features (fc2 self) = 256 \<and> out_features (fc2 self) = 32 \<and>
     in_features (latent_out self) = 32 \<and> out_features (latent_out self) = d \<and>
     in_features (reward_out self) = 32 \<and> out_features (reward_out self) = 1 \<and>
     in_features (term_out self) = 32 \<and> out_features (term_out self) = 1"

subsection \<open>A concrete predictor\<close>

text \<open>
  An unbatched vector, and a predictor with \<^verbatim>\<open>latent_state_dim = 2\<close> and
  \<^verbatim>\<open>action_dim = 2\<close> whose weights are all zero, so that every layer returns its bias:
  1 in both hidden layers, 2 in the state head, 3 in the reward head and 0 in the
  termination head.
\<close>

definition vec :: "real list \<Rightarrow> tensor" where
  "vec xs = \<lparr>shape = [length xs], elems = xs\<rparr>"

definition zero_weight :: "nat \<Rightarrow> nat \<Rightarrow> real" where
  "zero_weight k j = 0"

definition example_values :: initial_values where
  "example_values =
     \<lparr>fc1_values = (zero_weight, \<lambda>k. 1),
      fc2_values = (zero_weight, \<lambda>k. 1),
      latent_out_values = (zero_weight, \<lambda>k. 2),
      reward_out_values = (zero_weight, \<lambda>k. 3),
      term_out_values = (zero_weight, \<lambda>k. 0)\<rparr>"

definition delta_model :: LatentDynamicsModel where
  "delta_model = init CPU example_values 2 2 True None"

definition absolute_model :: LatentDynamicsModel where
  "absolute_model = init CPU example_values 2 2 False None"



text \<open>
  The predictor with memoization on and an empty store; the same after one call on the
  latent state \<open>[5, 7]\<close> and the action \<open>[0, 1]\<close>; and the predictor after
  \<^verbatim>\<open>set_memo\<close> has stored an all-zero triple under that input.
\<close>

definition memoizing_model :: LatentDynamicsModel where
  "memoizing_model = start_memoize delta_model"

definition after_first_call :: LatentDynamicsModel where
  "after_first_call =
     memoizing_model
       \<lparr>memos := [(HashedTensor (vec [5, 7, 0, 1]), vec [7, 9], vec [3], vec [1 / 2])]\<rparr>"

definition seeded_model :: LatentDynamicsModel where
  "seeded_model =
     snd (set_memo delta_model (vec [5, 7]) (vec [0, 1]) (vec [0, 0]) (vec [0]) (vec [0]))"

section \<open>Properties of the tensor operations\<close>

lemma chunks_length [simp]: "length (chunks w n xs) = n"
  by (induction n arbitrary: xs) auto

lemma chunks_concat: "length xs = n * w \<Longrightarrow> concat (chunks w n xs) = xs"
  by (induction n arbitrary: xs) auto

lemma chunks_widths_all: "length xs = n * w \<Longrightarrow> \<forall>c \<in> set (chunks w n xs). length c = w"
proof (induction n arbitrary: xs)
  case 0
  then show ?case by simp
next
  case (Suc n)
  have "length (drop w xs) = n * w" using Suc.prems by simp
  then have "\<forall>c \<in> set (chunks w n (drop w xs)). length c = w" by (rule Suc.IH)
  then show ?case using Suc.prems by simp
qed

lemma chunks_widths: "length xs = n * w \<Longrightarrow> c \<in> set (chunks w n xs) \<Longrightarrow> length c = w"
  using chunks_widths_all by blast

lemma expand_same: "length xs = prod_list s \<Longrightarrow> expand s s xs = xs"
proof (induction s arbitrary: xs)
  case Nil
  then show ?case by simp
next
  case (Cons a s)
  have len: "length xs = a * prod_list s" using Cons.prems by simp
  have "map (expand s s) (chunks (prod_list s) a xs) = chunks (prod_list s) a xs"
    by (rule map_idI) (simp add: Cons.IH chunks_widths [OF len])
  then show ?case by (simp add: chunks_concat [OF len])
qed

lemma broadcast_rev_same: "broadcast_rev xs xs = Some xs"
  by (induction xs) auto

lemma tensor_add_same_shape:
  "valid a \<Longrightarrow> valid b \<Longrightarrow> shape a = shape b \<Longrightarrow>
   tensor_add a b = Inr \<lparr>shape = shape a, elems = map2 (+) (elems a) (elems b)\<rparr>"
  by (simp add: tensor_add_def broadcast_shapes_def broadcast_rev_same expand_to_def
      expand_same valid_def)

lemma tensor_add_fails:
  assumes "shape s \<noteq> []" and "shape y = bs @ [w]"
    and "last (shape s) \<noteq> w" and "last (shape s) \<noteq> 1" and "w \<noteq> 1"
  shows "tensor_add s y = Inl RuntimeError"
proof -
  have r: "rev (shape s) = last (shape s) # rev (butlast (shape s))"
    using assms(1) by (cases "shape s" rule: rev_cases) auto
  have "rev (shape y) = w # rev bs"
    by (simp add: assms(2))
  with r have "broadcast_rev (rev (shape s)) (rev (shape y)) =
      broadcast_rev (last (shape s) # rev (butlast (shape s))) (w # rev bs)"
    by (simp only:)
  also have "\<dots> = None"
    using assms(3-5) by simp
  finally have "broadcast_rev (rev (shape s)) (rev (shape y)) = None" .
  then show ?thesis by (simp add: tensor_add_def broadcast_shapes_def)
qed

lemma Linear_call_valid: "Linear_call l x = Inr y \<Longrightarrow> valid y"
  by (auto simp: Linear_call_def valid_def rows_def Linear_row_def length_concat comp_def
      sum_list_triv split: if_splits)

lemma Linear_call_shape:
  "Linear_call l x = Inr y \<Longrightarrow> shape y = butlast (shape x) @ [out_features l]"
  by (auto simp: Linear_call_def split: if_splits)

lemma Linear_call_returns:
  "shape x \<noteq> [] \<Longrightarrow> last (shape x) = in_features l \<Longrightarrow>
   \<exists>y. Linear_call l x = Inr y \<and> shape y = butlast (shape x) @ [out_features l]"
  by (simp add: Linear_call_def)

lemma relu_shape [simp]: "shape (relu x) = shape x"
  by (simp add: relu_def)

lemma cat_width:
  "cat s a = Inr x \<Longrightarrow> last (shape x) = last (shape s) + last (shape a)"
  by (auto simp: cat_def split: if_splits)

lemma cat_rank: "cat s a = Inr x \<Longrightarrow> shape s \<noteq> [] \<and> shape a \<noteq> [] \<and> shape x \<noteq> []"
  by (auto simp: cat_def split: if_splits)

lemma cat_vectors:
  "shape s = [d] \<Longrightarrow> shape a = [ad] \<Longrightarrow> \<exists>x. cat s a = Inr x \<and> shape x = [d + ad]"
  by (auto simp: cat_def)

lemma error_eq: "(e :: error) = RuntimeError"
  by (cases e)

section \<open>Single-precision rounding and the logistic function\<close>

lemma rne_of_int [simp]: "rne (of_int k) = k"
  by (simp add: rne_def)

lemma rne_near: "\<bar>x - of_int k\<bar> < 1 / 2 \<Longrightarrow> rne x = k"
proof -
  assume a: "\<bar>x - of_int k\<bar> < 1 / 2"
  show ?thesis
  proof (cases "of_int k \<le> x")
    case True
    then have "\<lfloor>x\<rfloor> = k" using a by (intro floor_unique) auto
    then show ?thesis using a True by (simp add: rne_def)
  next
    case False
    then have "\<lfloor>x\<rfloor> = k - 1" using a by (intro floor_unique) auto
    then show ?thesis using a False by (simp add: rne_def Let_def)
  qed
qed

lemma rne_ge: "of_int k \<le> x \<Longrightarrow> k \<le> rne x"
proof -
  assume "of_int k \<le> x"
  then have "k \<le> \<lfloor>x\<rfloor>" by (simp add: le_floor_iff)
  then show ?thesis by (auto simp: rne_def Let_def)
qed

lemma rne_le: "x \<le> of_int k \<Longrightarrow> rne x \<le> k"
proof (cases "x = of_int k")
  case True
  then show ?thesis by simp
next
  case False
  assume "x \<le> of_int k"
  with False have "x < of_int k" by simp
  then have "\<lfloor>x\<rfloor> < k" by (simp add: floor_less_iff)
  then show ?thesis by (auto simp: rne_def Let_def)
qed


lemma binade:
  assumes "x \<noteq> 0"
  shows "2 powi \<lfloor>log 2 \<bar>x\<bar>\<rfloor> \<le> \<bar>x\<bar>" and "\<bar>x\<bar> < 2 powi (\<lfloor>log 2 \<bar>x\<bar>\<rfloor> + 1)"
proof -
  have pos: "0 < \<bar>x\<bar>" using assms by simp
  let ?k = "\<lfloor>log 2 \<bar>x\<bar>\<rfloor>"
  have b: "2 powr (of_int ?k) \<le> \<bar>x\<bar> \<and> \<bar>x\<bar> < 2 powr (of_int ?k + 1)"
    using floor_log_eq_powr_iff [OF pos, of 2 ?k] by simp
  have p1: "(2::real) powr (of_int ?k) = 2 powi ?k"
    by (simp add: powr_real_of_int')
  have p2: "(2::real) powr (of_int ?k + 1) = 2 powi (?k + 1)"
    using powr_real_of_int' [of "2::real" "?k + 1"] by simp
  from b p1 p2 show "2 powi ?k \<le> \<bar>x\<bar>" and "\<bar>x\<bar> < 2 powi (?k + 1)"
    by simp_all
qed

lemma floor_log_le:
  assumes "0 < x" and "x < 2 powi k"
  shows "\<lfloor>log 2 \<bar>x\<bar>\<rfloor> < k"
proof (rule ccontr)
  assume "\<not> \<lfloor>log 2 \<bar>x\<bar>\<rfloor> < k"
  then have "(2::real) powi k \<le> 2 powi \<lfloor>log 2 \<bar>x\<bar>\<rfloor>"
    by (intro power_int_increasing) auto
  also have "\<dots> \<le> \<bar>x\<bar>" using binade(1) [of x] assms by simp
  finally show False using assms by simp
qed

lemma floor_log_ge:
  assumes "2 powi k \<le> x"
  shows "k \<le> \<lfloor>log 2 \<bar>x\<bar>\<rfloor>"
proof (rule ccontr)
  have pos: "0 < x" using assms zero_less_power_int [of "2::real" k] by linarith
  assume "\<not> k \<le> \<lfloor>log 2 \<bar>x\<bar>\<rfloor>"
  then have "\<lfloor>log 2 \<bar>x\<bar>\<rfloor> + 1 \<le> k" by simp
  then have "(2::real) powi (\<lfloor>log 2 \<bar>x\<bar>\<rfloor> + 1) \<le> 2 powi k"
    by (intro power_int_increasing) auto
  moreover have "\<bar>x\<bar> < 2 powi (\<lfloor>log 2 \<bar>x\<bar>\<rfloor> + 1)" using binade(2) [of x] pos by simp
  ultimately show False using assms pos by simp
qed


lemma power_int_of_nat: "0 \<le> j \<Longrightarrow> (2::real) powi j = of_int (2 ^ nat j)"
  by (simp add: power_int_def)


lemma round32_upper:
  assumes "0 < x" and "x \<le> 2 powi k" and "- 126 \<le> k" and "k \<le> 127"
  shows "\<exists>y. round32 x = Some y \<and> 0 \<le> y \<and> y \<le> 2 powi k"
proof -
  let ?E = "max \<lfloor>log 2 \<bar>x\<bar>\<rfloor> (- 126)"
  let ?u = "(2::real) powi (?E - 23)"
  let ?y = "of_int (rne (x / ?u)) * ?u"
  have "x < 2 powi (k + 1)"
  proof -
    have "(2::real) powi k < 2 powi (k + 1)" by (intro power_int_strict_increasing) auto
    with assms(2) show ?thesis by simp
  qed
  then have "\<lfloor>log 2 \<bar>x\<bar>\<rfloor> < k + 1" by (rule floor_log_le [OF assms(1)])
  then have E: "?E \<le> k" using assms(3) by simp
  then have j: "0 \<le> k - ?E + 23" by simp
  have "x / ?u \<le> 2 powi k / ?u" using assms(2) by (simp add: divide_right_mono)
  also have "\<dots> = 2 powi (k - ?E + 23)"
    by (simp add: power_int_diff [symmetric] algebra_simps)
  also have "\<dots> = of_int (2 ^ nat (k - ?E + 23))" by (rule power_int_of_nat [OF j])
  finally have "rne (x / ?u) \<le> 2 ^ nat (k - ?E + 23)" by (rule rne_le)
  then have "(of_int (rne (x / ?u)) :: real) \<le> of_int (2 ^ nat (k - ?E + 23))"
    by (simp only: of_int_le_iff)
  also have "\<dots> = 2 powi (k - ?E + 23)" by (rule power_int_of_nat [OF j, symmetric])
  finally have "?y \<le> 2 powi (k - ?E + 23) * ?u" by (simp add: mult_right_mono)
  also have "\<dots> = 2 powi k" by (simp add: power_int_add [symmetric])
  finally have up: "?y \<le> 2 powi k" .
  have "0 \<le> x / ?u" using assms(1) by simp
  then have "0 \<le> rne (x / ?u)" using rne_ge [of 0] by simp
  then have lo: "0 \<le> ?y" by simp
  have "(2::real) powi k \<le> 2 powi 127" using assms(4) by (intro power_int_increasing) auto
  also have "\<dots> < 2 ^ 128" by simp
  finally have "\<bar>?y\<bar> < 2 ^ 128" using up lo by simp
  then have "round32 x = Some ?y"
    using assms(1) by (simp add: round32_def ulp_exponent_def Let_def)
  with up lo show ?thesis by blast
qed

lemma round32_lower:
  assumes "2 powi k \<le> x" and "- 126 \<le> k" and "round32 x = Some y"
  shows "2 powi k \<le> y"
proof -
  let ?B = "\<lfloor>log 2 \<bar>x\<bar>\<rfloor>"
  let ?u = "(2::real) powi (?B - 23)"
  let ?y = "of_int (rne (x / ?u)) * ?u"
  have pos: "0 < x" using assms(1) zero_less_power_int [of "2::real" k] by linarith
  have B: "k \<le> ?B" by (rule floor_log_ge [OF assms(1)])
  then have E: "max ?B (- 126) = ?B" using assms(2) by simp
  have "(2::real) powi ?B \<le> x" using binade(1) [of x] pos by simp
  then have "2 powi ?B / ?u \<le> x / ?u" by (simp add: divide_right_mono)
  moreover have "2 powi ?B / ?u = of_int (2 ^ 23)"
    by (simp add: power_int_diff [symmetric])
  ultimately have "2 ^ 23 \<le> rne (x / ?u)" using rne_ge [of "2 ^ 23" "x / ?u"] by simp
  then have "(of_int (2 ^ 23) :: real) \<le> of_int (rne (x / ?u))"
    by (simp only: of_int_le_iff)
  then have step: "of_int (2 ^ 23) * ?u \<le> ?y" by (simp add: mult_right_mono)
  have "2 powi ?B = of_int (2 ^ 23) * ?u"
    by (simp add: power_int_diff)
  also note step
  finally have "2 powi ?B \<le> ?y" .
  moreover have "(2::real) powi k \<le> 2 powi ?B" using B by (intro power_int_increasing) auto
  moreover have "y = ?y"
    using assms(3) pos E by (auto simp: round32_def ulp_exponent_def Let_def split: if_splits)
  ultimately show ?thesis by simp
qed



lemma round32_one_plus:
  assumes "0 \<le> t" and "t < 1 / 2 ^ 24"
  shows "round32 (1 + t) = Some 1"
proof -
  have B: "\<lfloor>log 2 \<bar>1 + t\<bar>\<rfloor> = 0"
  proof -
    have "(2::real) powi 0 \<le> 1 + t" using assms(1) by simp
    then have "0 \<le> \<lfloor>log 2 \<bar>1 + t\<bar>\<rfloor>" by (rule floor_log_ge)
    moreover have "1 + t < 2 powi 1" using assms(2) by simp
    then have "\<lfloor>log 2 \<bar>1 + t\<bar>\<rfloor> < 1" using assms(1) by (intro floor_log_le) auto
    ultimately show ?thesis by linarith
  qed
  have u: "ulp_exponent (1 + t) = - 23" by (simp add: ulp_exponent_def B)
  have p: "(2::real) powi (- 23) = 1 / 8388608" by (simp add: power_int_minus field_simps)
  have "\<bar>(1 + t) / (1 / 8388608) - of_int 8388608\<bar> < 1 / 2"
    using assms by (simp add: field_simps)
  then have "rne ((1 + t) / (1 / 8388608)) = 8388608" by (rule rne_near)
  then show ?thesis using assms(1) by (simp add: round32_def u p)
qed

lemma round32_one: "round32 1 = Some 1"
  using round32_one_plus [of 0] by simp


lemma round32_power_of_two:
  assumes "- 126 \<le> k" and "k \<le> 127"
  shows "round32 (2 powi k) = Some (2 powi k)"
proof -
  from round32_upper [of "2 powi k" k] assms
  obtain y where y: "round32 (2 powi k) = Some y" "y \<le> 2 powi k" by auto
  from round32_lower [OF _ assms(1) y(1)] have "2 powi k \<le> y" by simp
  with y show ?thesis by simp
qed

lemma sigmoid32_0: "sigmoid32 0 = 1 / 2"
proof -
  have 2: "round32 2 = Some 2" using round32_power_of_two [of 1] by simp
  have h: "round32 (1 / 2) = Some (1 / 2)"
    using round32_power_of_two [of "- 1"] by (simp add: power_int_minus field_simps)
  show ?thesis by (simp add: sigmoid32_def round32_one 2 h)
qed



























section \<open>Properties of dictionary assignment\<close>

lemma dict_get_set:
  "dict_get (dict_set k v d) k' = (if k' = k then Some v else dict_get d k')"
  by (induction d) (auto simp: dict_get_def)

lemma dict_keys_set:
  "dict_keys (dict_set k v d) =
     (if k \<in> set (dict_keys d) then dict_keys d else dict_keys d @ [k])"
  by (induction d) (force simp: dict_keys_def)+

lemma distinct_dict_set:
  "distinct (dict_keys d) \<Longrightarrow> distinct (dict_keys (dict_set k v d))"
  by (simp add: dict_keys_set)

lemma dict_set_key: "k \<in> set (dict_keys (dict_set k v d))"
  by (simp add: dict_keys_set)

lemma distinct_keys_once:
  "distinct (dict_keys d) \<Longrightarrow> k \<in> set (dict_keys d) \<Longrightarrow>
   length (filter (\<lambda>e. fst e = k) d) = 1"
proof (induction d)
  case Nil
  then show ?case by (simp add: dict_keys_def)
next
  case (Cons e d)
  show ?case
  proof (cases "fst e = k")
    case True
    then have "k \<notin> fst ` set d" using Cons.prems(1) by (auto simp: dict_keys_def)
    then have "filter (\<lambda>e. fst e = k) d = []" by (auto simp: filter_empty_conv)
    with True show ?thesis by simp
  next
    case False
    then show ?thesis using Cons by (auto simp: dict_keys_def)
  qed
qed

lemma dict_set_once:
  "distinct (dict_keys d) \<Longrightarrow> length (filter (\<lambda>e. fst e = k) (dict_set k v d)) = 1"
  by (rule distinct_keys_once [OF distinct_dict_set dict_set_key])

section \<open>The structure of the methods\<close>

lemma forward_network:
  "forward self s a =
     (case cat s a of
        Inl e \<Rightarrow> (Inl e, self)
      | Inr x \<Rightarrow>
          (case (if memoize_on self then dict_get (memos self) (HashedTensor x) else None) of
             Some (n, r, t) \<Rightarrow> (Inr (n, r, t, True), self)
           | None \<Rightarrow>
               (case network self s x of
                  Inl e \<Rightarrow> (Inl e, self)
                | Inr (n, r, t) \<Rightarrow>
                    (Inr (n, r, t, False),
                     if memoize_on self
                     then self\<lparr>memos := dict_set (HashedTensor x) (n, r, t) (memos self)\<rparr>
                     else self))))"
  by (simp add: forward_def network_def state_head_def reward_head_def term_head_def
      hidden_def tensor_to_def Let_def split: sum.splits option.splits)

lemma hidden_memos [simp]:
  "hidden (m\<lparr>memos := d\<rparr>) = hidden m" "hidden (m\<lparr>memoize_on := b\<rparr>) = hidden m"
  by (simp_all add: hidden_def fun_eq_iff cong: sum.case_cong)

lemma heads_memos [simp]:
  "state_head (m\<lparr>memos := d\<rparr>) = state_head m"
  "state_head (m\<lparr>memoize_on := b\<rparr>) = state_head m"
  "reward_head (m\<lparr>memos := d\<rparr>) = reward_head m"
  "reward_head (m\<lparr>memoize_on := b\<rparr>) = reward_head m"
  "term_head (m\<lparr>memos := d\<rparr>) = term_head m"
  "term_head (m\<lparr>memoize_on := b\<rparr>) = term_head m"
  by (simp_all add: state_head_def reward_head_def term_head_def fun_eq_iff
      cong: sum.case_cong)

lemma network_memos [simp]:
  "network (m\<lparr>memos := d\<rparr>) = network m" "network (m\<lparr>memoize_on := b\<rparr>) = network m"
  by (simp_all add: network_def fun_eq_iff cong: sum.case_cong)

lemma start_stop [simp]:
  "start_memoize (stop_memoize m) = start_memoize m"
  "memoize_on (start_memoize m)" "\<not> memoize_on (stop_memoize m)"
  "memos (start_memoize m) = memos m" "memos (stop_memoize m) = memos m"
  by (simp_all add: start_memoize_def stop_memoize_def)

lemma forward_memo_off: "\<not> memoize_on m \<Longrightarrow> snd (forward m s a) = m"
  by (simp add: forward_network split: sum.splits prod.splits)

lemma forward_memo_off_no_hit:
  "\<not> memoize_on m \<Longrightarrow> fst (forward m s a) \<noteq> Inr (n, r, t, True)"
  by (simp add: forward_network split: sum.splits prod.splits)

lemma forward_memo_off_store:
  "\<not> memoize_on m \<Longrightarrow> fst (forward (m\<lparr>memos := d\<rparr>) s a) = fst (forward m s a)"
  by (simp add: forward_network split: sum.splits prod.splits)

lemma forward_hit:
  "memoize_on m \<Longrightarrow> cat s a = Inr x \<Longrightarrow> dict_get (memos m) (HashedTensor x) = Some (n, r, t)
   \<Longrightarrow> forward m s a = (Inr (n, r, t, True), m)"
  by (simp add: forward_network)

lemma forward_store:
  "memoize_on m \<Longrightarrow> cat s a = Inr x \<Longrightarrow> fst (forward m s a) = Inr (n, r, t, False) \<Longrightarrow>
   memos (snd (forward m s a)) = dict_set (HashedTensor x) (n, r, t) (memos m)"
  by (auto simp: forward_network split: sum.splits option.splits)

lemma forward_store_cases:
  "memos (snd (forward m s a)) = memos m \<or>
   (\<exists>k v. memos (snd (forward m s a)) = dict_set k v (memos m))"
  by (auto simp: forward_network split: sum.splits option.splits)

lemma set_memo_store:
  "cat s a = Inr x \<Longrightarrow>
   memos (snd (set_memo m s a n r t)) = dict_set (HashedTensor x) (n, r, t) (memos m)"
  by (simp add: set_memo_def)

lemma set_memo_store_cases:
  "memos (snd (set_memo m s a n r t)) = memos m \<or>
   (\<exists>k v. memos (snd (set_memo m s a n r t)) = dict_set k v (memos m))"
  by (auto simp: set_memo_def split: sum.splits)

lemma no_hit_memo_off: "\<not> memoize_on m \<Longrightarrow> \<not> memo_hit m s a"
  by (simp add: memo_hit_def split: sum.splits)

lemma state_head_shape:
  "state_head m x = Inr y \<Longrightarrow> \<exists>bs. shape y = bs @ [out_features (latent_out m)]"
  by (auto simp: state_head_def dest: Linear_call_shape split: sum.splits)

lemma state_head_valid: "state_head m x = Inr d \<Longrightarrow> valid d"
  by (auto simp: state_head_def dest: Linear_call_valid split: sum.splits)

lemma network_fails_width:
  "last (shape x) \<noteq> in_features (fc1 m) \<Longrightarrow> network m s x = Inl RuntimeError"
  by (simp add: network_def state_head_def hidden_def Linear_call_def)

lemma network_fails_delta:
  assumes "delta_mode m" and "shape s \<noteq> []"
    and "last (shape s) \<noteq> out_features (latent_out m)" and "last (shape s) \<noteq> 1"
    and "out_features (latent_out m) \<noteq> 1"
  shows "network m s x = Inl RuntimeError"
proof (cases "state_head m x")
  case (Inl e)
  then show ?thesis by (simp add: network_def error_eq)
next
  case (Inr y)
  then obtain bs where y: "shape y = bs @ [out_features (latent_out m)]"
    using state_head_shape by blast
  have "tensor_add s y = Inl RuntimeError"
    by (rule tensor_add_fails [OF assms(2) y assms(3-5)])
  then show ?thesis using Inr assms(1) by (simp add: network_def)
qed

section \<open>Construction and calls on inputs of the constructed widths\<close>

lemma constructed_init: "constructed d ad (init best vs d ad dm dev)"
  by (simp add: constructed_def init_def nn_Linear_def)

lemma constructed_flags:
  "constructed d ad (start_memoize m) = constructed d ad m"
  "constructed d ad (stop_memoize m) = constructed d ad m"
  "constructed d ad (clear_memos m) = constructed d ad m"
  by (simp_all add: constructed_def start_memoize_def stop_memoize_def clear_memos_def)

lemma constructed_set_memo:
  "constructed d ad (snd (set_memo m s a n r t)) = constructed d ad m"
  by (simp add: constructed_def set_memo_def split: sum.splits)

lemma constructed_forward:
  "constructed d ad (snd (forward m s a)) = constructed d ad m"
  by (simp add: constructed_def forward_network split: sum.splits option.splits prod.splits)

lemma network_returns:
  assumes c: "constructed d ad m" and s: "shape s = [d]" and x: "shape x = [d + ad]"
  shows "\<exists>res. network m s x = Inr res"
proof -
  from c have w: "in_features (fc1 m) = d + ad" "out_features (fc1 m) = 256"
    "in_features (fc2 m) = 256" "out_features (fc2 m) = 32"
    "in_features (latent_out m) = 32" "out_features (latent_out m) = d"
    "in_features (reward_out m) = 32" "in_features (term_out m) = 32"
    by (simp_all add: constructed_def)
  obtain x1 where x1: "Linear_call (fc1 m) x = Inr x1" "shape x1 = [256]"
    using Linear_call_returns [of x "fc1 m"] x w by auto
  obtain x2 where x2: "Linear_call (fc2 m) (relu x1) = Inr x2" "shape x2 = [32]"
    using Linear_call_returns [of "relu x1" "fc2 m"] x1 w by auto
  have h: "hidden m x = Inr (relu x2)"
    by (simp add: hidden_def x1 x2)
  obtain dd where dd: "Linear_call (latent_out m) (relu x2) = Inr dd" "shape dd = [d]"
    using Linear_call_returns [of "relu x2" "latent_out m"] x2 w by auto
  obtain rr where rr: "Linear_call (reward_out m) (relu x2) = Inr rr"
    using Linear_call_returns [of "relu x2" "reward_out m"] x2 w by auto
  obtain zz where zz: "Linear_call (term_out m) (relu x2) = Inr zz"
    using Linear_call_returns [of "relu x2" "term_out m"] x2 w by auto
  have "\<exists>n. tensor_add s dd = Inr n"
    by (simp add: tensor_add_def broadcast_shapes_def s dd)
  then show ?thesis
    by (auto simp: network_def state_head_def reward_head_def term_head_def h dd rr zz)
qed

lemma forward_returns:
  assumes "constructed d ad m" and "shape s = [d]" and "shape a = [ad]"
  shows "\<exists>res. fst (forward m s a) = Inr res"
proof -
  from cat_vectors [OF assms(2,3)] obtain x where x: "cat s a = Inr x" "shape x = [d + ad]"
    by blast
  from network_returns [OF assms(1,2) x(2)] obtain res where "network m s x = Inr res"
    by blast
  then show ?thesis
    by (cases res) (auto simp: forward_network x split: option.splits)
qed

section \<open>The concrete predictor evaluated\<close>

lemma valid_vec [simp]: "valid (vec xs)"
  by (simp add: valid_def vec_def)

lemma shape_vec [simp]: "shape (vec xs) = [length xs]"
  by (simp add: vec_def)

lemma elems_vec [simp]: "elems (vec xs) = xs"
  by (simp add: vec_def)

lemma cat_vec [simp]: "xs \<noteq> [] \<Longrightarrow> ys \<noteq> [] \<Longrightarrow> cat (vec xs) (vec ys) = Inr (vec (xs @ ys))"
  by (simp add: cat_def vec_def rows_def)

lemma relu_vec [simp]: "relu (vec xs) = vec (map (max 0) xs)"
  by (simp add: relu_def vec_def)

lemma sigmoid_vec [simp]: "sigmoid (vec xs) = vec (map sigmoid32 xs)"
  by (simp add: sigmoid_def vec_def)

lemma tensor_add_vec:
  "length xs = length ys \<Longrightarrow> tensor_add (vec xs) (vec ys) = Inr (vec (map2 (+) xs ys))"
  by (simp add: tensor_add_same_shape)

lemma Linear_call_zero_weight:
  "in_features l = length xs \<Longrightarrow> weight l = zero_weight \<Longrightarrow>
   Linear_call l (vec xs) = Inr (vec (map (bias l) [0..<out_features l]))"
  by (simp add: Linear_call_def vec_def rows_def Linear_row_def zero_weight_def)

lemma example_hidden:
  "length xs = 4 \<Longrightarrow> fc1 m = fc1 delta_model \<Longrightarrow> fc2 m = fc2 delta_model \<Longrightarrow>
   hidden m (vec xs) = Inr (vec (replicate 32 1))"
  by (simp add: hidden_def delta_model_def init_def nn_Linear_def example_values_def
      Linear_call_zero_weight map_replicate_const)

lemma example_state_head:
  "length xs = 4 \<Longrightarrow> fc1 m = fc1 delta_model \<Longrightarrow> fc2 m = fc2 delta_model \<Longrightarrow>
   latent_out m = latent_out delta_model \<Longrightarrow> state_head m (vec xs) = Inr (vec [2, 2])"
  by (simp add: state_head_def example_hidden)
    (simp add: delta_model_def init_def nn_Linear_def example_values_def
      Linear_call_zero_weight upt_rec)

lemma example_reward_head:
  "length xs = 4 \<Longrightarrow> fc1 m = fc1 delta_model \<Longrightarrow> fc2 m = fc2 delta_model \<Longrightarrow>
   reward_out m = reward_out delta_model \<Longrightarrow> reward_head m (vec xs) = Inr (vec [3])"
  by (simp add: reward_head_def example_hidden)
    (simp add: delta_model_def init_def nn_Linear_def example_values_def
      Linear_call_zero_weight)

lemma example_term_head:
  "length xs = 4 \<Longrightarrow> fc1 m = fc1 delta_model \<Longrightarrow> fc2 m = fc2 delta_model \<Longrightarrow>
   term_out m = term_out delta_model \<Longrightarrow> term_head m (vec xs) = Inr (vec [0])"
  by (simp add: term_head_def example_hidden)
    (simp add: delta_model_def init_def nn_Linear_def example_values_def
      Linear_call_zero_weight)

lemma absolute_layers:
  "fc1 absolute_model = fc1 delta_model" "fc2 absolute_model = fc2 delta_model"
  "latent_out absolute_model = latent_out delta_model"
  "reward_out absolute_model = reward_out delta_model"
  "term_out absolute_model = term_out delta_model"
  by (simp_all add: absolute_model_def delta_model_def init_def)

lemma delta_network:
  "length xs = 4 \<Longrightarrow>
   network delta_model (vec [p, q]) (vec xs) = Inr (vec [p + 2, q + 2], vec [3], vec [1 / 2])"
  by (simp add: network_def example_state_head example_reward_head example_term_head
      tensor_add_vec sigmoid32_0)
    (simp add: delta_model_def init_def)

lemma absolute_network:
  "length xs = 4 \<Longrightarrow>
   network absolute_model s (vec xs) = Inr (vec [2, 2], vec [3], vec [1 / 2])"
  by (simp add: network_def example_state_head example_reward_head example_term_head
      absolute_layers sigmoid32_0)
    (simp add: absolute_model_def init_def)

lemma constructed_examples: "constructed 2 2 delta_model" "constructed 2 2 absolute_model"
  by (simp_all add: constructed_def delta_model_def absolute_model_def init_def nn_Linear_def)

lemma memoize_off_examples:
  "\<not> memoize_on delta_model" "\<not> memoize_on absolute_model" "\<not> memoize_on seeded_model"
  by (simp_all add: delta_model_def absolute_model_def seeded_model_def init_def
      set_memo_def split: sum.splits)

lemma delta_model_call:
  "forward delta_model (vec [5, 7]) (vec [0, 1]) =
     (Inr (vec [7, 9], vec [3], vec [1 / 2], False), delta_model)"
  by (simp add: forward_network memoize_off_examples delta_network)

lemma absolute_model_call:
  "forward absolute_model (vec [5, 7]) (vec [0, 1]) =
     (Inr (vec [2, 2], vec [3], vec [1 / 2], False), absolute_model)"
  by (simp add: forward_network memoize_off_examples absolute_network)

lemma memoizing_first_call:
  "forward (clear_memos memoizing_model) (vec [5, 7]) (vec [0, 1]) =
     (Inr (vec [7, 9], vec [3], vec [1 / 2], False), after_first_call)"
  by (simp add: forward_network memoizing_model_def after_first_call_def clear_memos_def
      start_memoize_def dict_get_def delta_network)

lemma after_first_call_entry:
  "dict_get (memos after_first_call) (HashedTensor (vec [5, 7, 0, 1])) =
     Some (vec [7, 9], vec [3], vec [1 / 2])"
  by (simp add: after_first_call_def dict_get_def)

lemma after_first_call_on: "start_memoize after_first_call = after_first_call"
  by (simp add: after_first_call_def memoizing_model_def start_memoize_def)

lemma seeded_model_eq:
  "seeded_model =
     delta_model\<lparr>memos := [(HashedTensor (vec [5, 7, 0, 1]), vec [0, 0], vec [0], vec [0])]\<rparr>"
  by (simp add: seeded_model_def set_memo_def)
    (simp add: delta_model_def init_def)

lemma seeded_set_memo:
  "set_memo delta_model (vec [5, 7]) (vec [0, 1]) (vec [0, 0]) (vec [0]) (vec [0]) =
     (Inr (), seeded_model)"
  by (simp add: seeded_model_def set_memo_def)

section \<open>Memoization: hit after miss, seeding, switching off, clearing\<close>

text \<open>
  C1. With memoization on, the first call of \<^verbatim>\<open>forward\<close> after \<^verbatim>\<open>clear_memos\<close>
  that returns has hit-flag false, and the same call repeated at once returns hit-flag
  true with the triple of the first call (and stores nothing new).
\<close>

theorem memo_hit_after_miss:
  assumes "memoize_on m" and "forward (clear_memos m) s a = (Inr (n, r, t, h), m1)"
  shows "h = False \<and> forward m1 s a = (Inr (n, r, t, True), m1)"
  using assms
  by (auto simp: forward_network clear_memos_def dict_get_def
      split: sum.splits option.splits if_splits)

theorem memo_hit_after_miss_witness:
  "memoize_on memoizing_model \<and>
   forward (clear_memos memoizing_model) (vec [5, 7]) (vec [0, 1]) =
     (Inr (vec [7, 9], vec [3], vec [1 / 2], False), after_first_call) \<and>
   forward after_first_call (vec [5, 7]) (vec [0, 1]) =
     (Inr (vec [7, 9], vec [3], vec [1 / 2], True), after_first_call)"
proof -
  have on: "memoize_on memoizing_model"
    by (simp add: memoizing_model_def start_memoize_def)
  from memo_hit_after_miss [OF on memoizing_first_call] on memoizing_first_call
  show ?thesis by simp
qed

text \<open>
  C3. After \<^verbatim>\<open>set_memo(s, a, ns, r, t)\<close> has returned, \<^verbatim>\<open>forward(s, a)\<close> with
  memoization on returns exactly \<open>(ns, r, t, True)\<close> and leaves the object as it is.
  The layers are not evaluated: the result is the same whatever the five layers are, also
  layers that would raise on this input. The store after \<^verbatim>\<open>set_memo\<close> does not depend
  on the memoization flag.
\<close>

theorem set_memo_then_forward:
  assumes "set_memo m s a ns r t = (Inr (), m1)"
  shows "forward (start_memoize m1) s a = (Inr (ns, r, t, True), start_memoize m1) \<and>
         (\<forall>l1 l2 l3 l4 l5.
            fst (forward (start_memoize
                   (m1\<lparr>fc1 := l1, fc2 := l2, latent_out := l3, reward_out := l4,
                       term_out := l5\<rparr>)) s a) = Inr (ns, r, t, True)) \<and>
         (\<forall>b. memos (snd (set_memo (m\<lparr>memoize_on := b\<rparr>) s a ns r t)) = memos m1)"
  using assms
  by (auto simp: set_memo_def forward_network start_memoize_def dict_get_set
      split: sum.splits)

theorem set_memo_then_forward_witness:
  "set_memo delta_model (vec [5, 7]) (vec [0, 1]) (vec [0, 0]) (vec [0]) (vec [0]) =
     (Inr (), seeded_model) \<and>
   forward (start_memoize seeded_model) (vec [5, 7]) (vec [0, 1]) =
     (Inr (vec [0, 0], vec [0], vec [0], True), start_memoize seeded_model)"
  using set_memo_then_forward [OF seeded_set_memo] seeded_set_memo by simp

text \<open>
  C4. After \<^verbatim>\<open>stop_memoize\<close> the stored entries are all still there; every call of
  \<^verbatim>\<open>forward\<close> leaves the object, and so the store, as it is, never returns hit-flag
  true, and returns what it would return with any other store. After a following
  \<^verbatim>\<open>start_memoize\<close>, with calls of \<^verbatim>\<open>forward\<close> in between or not, an entry stored
  before is found again: the call on its key returns it with hit-flag true.
\<close>

theorem stop_memoize_isolation:
  "memos (stop_memoize m) = memos m \<and>
   snd (forward (stop_memoize m) s' a') = stop_memoize m \<and>
   fst (forward (stop_memoize m) s' a') \<noteq> Inr (n', r', t', True) \<and>
   fst (forward ((stop_memoize m)\<lparr>memos := d\<rparr>) s' a') = fst (forward (stop_memoize m) s' a') \<and>
   (cat s a = Inr x \<and> dict_get (memos m) (HashedTensor x) = Some (n, r, t) \<longrightarrow>
      forward (start_memoize (stop_memoize m)) s a = (Inr (n, r, t, True), start_memoize m) \<and>
      forward (start_memoize (snd (forward (stop_memoize m) s' a'))) s a =
        (Inr (n, r, t, True), start_memoize m))"
  by (simp add: forward_memo_off forward_memo_off_no_hit forward_memo_off_store forward_hit)

theorem stop_memoize_isolation_witness:
  "fst (forward (stop_memoize after_first_call) (vec [5, 7]) (vec [0, 1])) =
     Inr (vec [7, 9], vec [3], vec [1 / 2], False) \<and>
   snd (forward (stop_memoize after_first_call) (vec [5, 7]) (vec [0, 1])) =
     stop_memoize after_first_call \<and>
   forward (start_memoize (snd (forward (stop_memoize after_first_call) (vec [1, 1]) (vec [1, 0]))))
       (vec [5, 7]) (vec [0, 1]) =
     (Inr (vec [7, 9], vec [3], vec [1 / 2], True), after_first_call)"
proof -
  have key: "cat (vec [5, 7]) (vec [0, 1]) = Inr (vec [5, 7, 0, 1])" by simp
  have off: "fst (forward (stop_memoize after_first_call) (vec [5, 7]) (vec [0, 1])) =
      Inr (vec [7, 9], vec [3], vec [1 / 2], False)"
    by (simp add: forward_network stop_memoize_def after_first_call_def memoizing_model_def
        start_memoize_def delta_network)
  from stop_memoize_isolation [of after_first_call "vec [5, 7]" "vec [0, 1]"]
    stop_memoize_isolation [of after_first_call "vec [1, 1]" "vec [1, 0]" _ _ _ _
      "vec [5, 7]" "vec [0, 1]" "vec [5, 7, 0, 1]" "vec [7, 9]" "vec [3]" "vec [1 / 2]"]
    key after_first_call_entry off
  show ?thesis by (simp add: after_first_call_on)
qed

text \<open>
  C5. \<^verbatim>\<open>clear_memos\<close> leaves the store empty whatever it held and whatever the flag
  is, and for every key stored before, by \<^verbatim>\<open>forward\<close> or by \<^verbatim>\<open>set_memo\<close>, a call of
  \<^verbatim>\<open>forward\<close> on that key after \<^verbatim>\<open>clear_memos\<close> with memoization on, when it
  returns, returns hit-flag false.
\<close>

theorem clear_memos_forgets:
  assumes "cat s a = Inr x" and "dict_get (memos m) (HashedTensor x) = Some v"
    and "forward (start_memoize (clear_memos m)) s a = (Inr (n, r, t, h), m')"
  shows "memos (clear_memos m) = [] \<and> h = False"
  using assms
  by (auto simp: forward_network clear_memos_def start_memoize_def dict_get_def
      split: sum.splits)

theorem clear_memos_forgets_witness:
  "dict_get (memos after_first_call) (HashedTensor (vec [5, 7, 0, 1])) =
     Some (vec [7, 9], vec [3], vec [1 / 2]) \<and>
   forward (start_memoize (clear_memos after_first_call)) (vec [5, 7]) (vec [0, 1]) =
     (Inr (vec [7, 9], vec [3], vec [1 / 2], False), after_first_call) \<and>
   memos (clear_memos after_first_call) = []"
proof -
  have key: "cat (vec [5, 7]) (vec [0, 1]) = Inr (vec [5, 7, 0, 1])" by simp
  have call: "forward (start_memoize (clear_memos after_first_call)) (vec [5, 7]) (vec [0, 1]) =
     (Inr (vec [7, 9], vec [3], vec [1 / 2], False), after_first_call)"
    by (simp add: forward_network clear_memos_def after_first_call_def memoizing_model_def
        start_memoize_def dict_get_def delta_network)
  from clear_memos_forgets [OF key after_first_call_entry call] after_first_call_entry call
  show ?thesis by simp
qed

text \<open>
  C9. Assigning under a key that is present replaces the stored triple, last write wins:
  after \<^verbatim>\<open>set_memo\<close>, and after a miss of \<^verbatim>\<open>forward\<close> with memoization on, the key
  is bound to the new triple, the store holds exactly one entry with that key, and
  \<^verbatim>\<open>set_memo\<close> leaves every other key as it was. The store is empty at construction,
  and every operation keeps the keys of the store pairwise different.
\<close>

theorem memo_keys_unique:
  assumes "distinct (dict_keys (memos m))"
  shows "distinct (dict_keys (memos (init best vs d ad dm dev))) \<and>
         distinct (dict_keys (memos (start_memoize m))) \<and>
         distinct (dict_keys (memos (stop_memoize m))) \<and>
         distinct (dict_keys (memos (clear_memos m))) \<and>
         distinct (dict_keys (memos (snd (set_memo m s a n r t)))) \<and>
         distinct (dict_keys (memos (snd (forward m s a)))) \<and>
         distinct (dict_keys (memos (snd (run m s a)))) \<and>
         (cat s a = Inr x \<longrightarrow>
            dict_get (memos (snd (set_memo m s a n r t))) (HashedTensor x) = Some (n, r, t) \<and>
            length (filter (\<lambda>e. fst e = HashedTensor x) (memos (snd (set_memo m s a n r t)))) = 1 \<and>
            (\<forall>k. k \<noteq> HashedTensor x \<longrightarrow>
               dict_get (memos (snd (set_memo m s a n r t))) k = dict_get (memos m) k)) \<and>
         (memoize_on m \<and> cat s a = Inr x \<and> fst (forward m s a) = Inr (n, r, t, False) \<longrightarrow>
            dict_get (memos (snd (forward m s a))) (HashedTensor x) = Some (n, r, t) \<and>
            length (filter (\<lambda>e. fst e = HashedTensor x) (memos (snd (forward m s a)))) = 1)"
proof -
  have init: "distinct (dict_keys (memos (init best vs d ad dm dev)))"
    by (simp add: init_def dict_keys_def)
  have flags: "distinct (dict_keys (memos (start_memoize m)))"
    "distinct (dict_keys (memos (stop_memoize m)))"
    "distinct (dict_keys (memos (clear_memos m)))"
    using assms by (simp_all add: start_memoize_def stop_memoize_def clear_memos_def dict_keys_def)
  have set: "distinct (dict_keys (memos (snd (set_memo m s a n r t))))"
    using set_memo_store_cases [of m s a n r t] assms by (auto simp: distinct_dict_set)
  have fw: "distinct (dict_keys (memos (snd (forward m s a))))"
    using forward_store_cases [of m s a] assms by (auto simp: distinct_dict_set)
  then have run: "distinct (dict_keys (memos (snd (run m s a))))"
    by (simp add: run_def Module_call_def)
  have last_set: "dict_get (memos (snd (set_memo m s a n r t))) (HashedTensor x) = Some (n, r, t) \<and>
      length (filter (\<lambda>e. fst e = HashedTensor x) (memos (snd (set_memo m s a n r t)))) = 1 \<and>
      (\<forall>k. k \<noteq> HashedTensor x \<longrightarrow>
         dict_get (memos (snd (set_memo m s a n r t))) k = dict_get (memos m) k)"
    if "cat s a = Inr x"
    using assms by (simp add: set_memo_store [OF that] dict_get_set dict_set_once)
  have last_fw: "dict_get (memos (snd (forward m s a))) (HashedTensor x) = Some (n, r, t) \<and>
      length (filter (\<lambda>e. fst e = HashedTensor x) (memos (snd (forward m s a)))) = 1"
    if "memoize_on m" "cat s a = Inr x" "fst (forward m s a) = Inr (n, r, t, False)"
    using assms by (simp add: forward_store [OF that] dict_get_set dict_set_once)
  from init flags set fw run last_set last_fw show ?thesis by blast
qed

theorem memo_keys_unique_witness:
  "distinct (dict_keys (memos after_first_call)) \<and>
   dict_get (memos after_first_call) (HashedTensor (vec [5, 7, 0, 1])) =
     Some (vec [7, 9], vec [3], vec [1 / 2]) \<and>
   dict_get
     (memos (snd (set_memo after_first_call (vec [5, 7]) (vec [0, 1])
                    (vec [0, 0]) (vec [0]) (vec [0]))))
     (HashedTensor (vec [5, 7, 0, 1])) = Some (vec [0, 0], vec [0], vec [0]) \<and>
   length (filter (\<lambda>e. fst e = HashedTensor (vec [5, 7, 0, 1]))
     (memos (snd (set_memo after_first_call (vec [5, 7]) (vec [0, 1])
                    (vec [0, 0]) (vec [0]) (vec [0]))))) = 1 \<and>
   distinct (dict_keys
     (memos (snd (set_memo after_first_call (vec [5, 7]) (vec [0, 1])
                    (vec [0, 0]) (vec [0]) (vec [0])))))"
proof -
  have dist: "distinct (dict_keys (memos after_first_call))"
    by (simp add: after_first_call_def dict_keys_def)
  have key: "cat (vec [5, 7]) (vec [0, 1]) = Inr (vec [5, 7, 0, 1])" by simp
  from memo_keys_unique [OF dist, where s = "vec [5, 7]" and a = "vec [0, 1]"
      and x = "vec [5, 7, 0, 1]" and n = "vec [0, 0]" and r = "vec [0]" and t = "vec [0]"]
    key dist after_first_call_entry
  show ?thesis by simp
qed

section \<open>The computed prediction\<close>

text \<open>
  C2 (amended). Whenever \<^verbatim>\<open>forward\<close> computes, that is returns hit-flag false, the
  returned next latent state is the input latent state plus the output of the state head
  when \<^verbatim>\<open>delta_mode\<close> is true, and the output of the state head itself when it is
  false. For a latent state of the shape of the head's output the sum is taken element
  by element. On a memo hit the stored triple is returned as it is: a result with
  hit-flag true is the triple stored under the key of the input, with the object
  unchanged, and a key that is stored while memoization is on gives exactly that result.
\<close>

theorem delta_mode_next_state:
  "(forward m s a = (Inr (n, r, t, False), m') \<longrightarrow>
      (\<exists>x d. cat s a = Inr x \<and> state_head m x = Inr d \<and>
         (if delta_mode m then tensor_add s d = Inr n else n = d) \<and>
         (delta_mode m \<and> valid s \<and> shape s = shape d \<longrightarrow>
            n = \<lparr>shape = shape s, elems = map2 (+) (elems s) (elems d)\<rparr>))) \<and>
   (forward m s a = (Inr (n, r, t, True), m') \<longrightarrow>
      m' = m \<and> memoize_on m \<and>
      (\<exists>x. cat s a = Inr x \<and> dict_get (memos m) (HashedTensor x) = Some (n, r, t))) \<and>
   (memoize_on m \<and> cat s a = Inr k \<and> dict_get (memos m) (HashedTensor k) = Some (n, r, t) \<longrightarrow>
      forward m s a = (Inr (n, r, t, True), m))"
proof (intro conjI impI)
  assume computed: "forward m s a = (Inr (n, r, t, False), m')"
  then obtain x d where x: "cat s a = Inr x" and d: "state_head m x = Inr d"
    and n: "if delta_mode m then tensor_add s d = Inr n else n = d"
    by (auto simp: forward_network network_def split: sum.splits option.splits if_splits)
  have "n = \<lparr>shape = shape s, elems = map2 (+) (elems s) (elems d)\<rparr>"
    if "delta_mode m" "valid s" "shape s = shape d"
    using that n tensor_add_same_shape [OF that(2) state_head_valid [OF d] that(3)] by simp
  with x d n
  show "\<exists>x d. cat s a = Inr x \<and> state_head m x = Inr d \<and>
         (if delta_mode m then tensor_add s d = Inr n else n = d) \<and>
         (delta_mode m \<and> valid s \<and> shape s = shape d \<longrightarrow>
            n = \<lparr>shape = shape s, elems = map2 (+) (elems s) (elems d)\<rparr>)"
    by blast
next
  assume hit: "forward m s a = (Inr (n, r, t, True), m')"
  then show "m' = m" "memoize_on m"
    "\<exists>x. cat s a = Inr x \<and> dict_get (memos m) (HashedTensor x) = Some (n, r, t)"
    by (auto simp: forward_network split: sum.splits option.splits if_splits)
next
  assume "memoize_on m \<and> cat s a = Inr k \<and>
    dict_get (memos m) (HashedTensor k) = Some (n, r, t)"
  then show "forward m s a = (Inr (n, r, t, True), m)"
    by (simp add: forward_hit)
qed

theorem delta_mode_next_state_witness:
  "(\<exists>x d. cat (vec [5, 7]) (vec [0, 1]) = Inr x \<and> state_head delta_model x = Inr d \<and>
      tensor_add (vec [5, 7]) d = Inr (vec [7, 9]) \<and>
      vec [7, 9] = \<lparr>shape = [2], elems = map2 (+) [5, 7] (elems d)\<rparr>) \<and>
   (\<exists>x. cat (vec [5, 7]) (vec [0, 1]) = Inr x \<and> state_head absolute_model x = Inr (vec [2, 2])) \<and>
   dict_get (memos (start_memoize seeded_model)) (HashedTensor (vec [5, 7, 0, 1])) =
     Some (vec [0, 0], vec [0], vec [0]) \<and>
   forward (start_memoize seeded_model) (vec [5, 7]) (vec [0, 1]) =
     (Inr (vec [0, 0], vec [0], vec [0], True), start_memoize seeded_model)"
proof -
  have dm: "delta_mode delta_model" "\<not> delta_mode absolute_model"
    by (simp_all add: delta_model_def absolute_model_def init_def)
  have sh: "state_head delta_model (vec [5, 7, 0, 1]) = Inr (vec [2, 2])"
    by (simp add: example_state_head)
  from delta_mode_next_state [THEN conjunct1, rule_format, OF delta_model_call] dm(1) sh
  have 1: "\<exists>x d. cat (vec [5, 7]) (vec [0, 1]) = Inr x \<and> state_head delta_model x = Inr d \<and>
      tensor_add (vec [5, 7]) d = Inr (vec [7, 9]) \<and>
      vec [7, 9] = \<lparr>shape = [2], elems = map2 (+) [5, 7] (elems d)\<rparr>"
    by auto
  from delta_mode_next_state [THEN conjunct1, rule_format, OF absolute_model_call] dm(2)
  have 2: "\<exists>x. cat (vec [5, 7]) (vec [0, 1]) = Inr x \<and>
      state_head absolute_model x = Inr (vec [2, 2])"
    by auto
  have on: "memoize_on (start_memoize seeded_model)" by simp
  have key: "cat (vec [5, 7]) (vec [0, 1]) = Inr (vec [5, 7, 0, 1])" by simp
  have stored: "dict_get (memos (start_memoize seeded_model)) (HashedTensor (vec [5, 7, 0, 1])) =
      Some (vec [0, 0], vec [0], vec [0])"
    by (simp add: seeded_model_eq dict_get_def)
  from delta_mode_next_state [THEN conjunct2, THEN conjunct2, rule_format,
      OF conjI [OF on conjI [OF key stored]]]
  have 3: "forward (start_memoize seeded_model) (vec [5, 7]) (vec [0, 1]) =
      (Inr (vec [0, 0], vec [0], vec [0], True), start_memoize seeded_model)" .
  from 1 2 stored 3 show ?thesis by blast
qed

text \<open>
The relation of C2 as it was stated, for every call, fails on a memo hit: here
the store was seeded by \<^verbatim>\<open>set_memo\<close> with an all-zero triple, and the call in delta
mode returns that triple, not the latent state plus the state head's output.
\<close>

theorem seeded_hit_ignores_delta_mode:
  "delta_mode (start_memoize seeded_model) \<and>
   forward (start_memoize seeded_model) (vec [5, 7]) (vec [0, 1]) =
     (Inr (vec [0, 0], vec [0], vec [0], True), start_memoize seeded_model) \<and>
   cat (vec [5, 7]) (vec [0, 1]) = Inr (vec [5, 7, 0, 1]) \<and>
   state_head (start_memoize seeded_model) (vec [5, 7, 0, 1]) = Inr (vec [2, 2]) \<and>
   tensor_add (vec [5, 7]) (vec [2, 2]) = Inr (vec [7, 9]) \<and>
   vec [0, 0] \<noteq> vec [7, 9]"
  by (simp add: forward_network seeded_model_eq start_memoize_def dict_get_def
      example_state_head tensor_add_vec)
    (simp add: delta_model_def init_def vec_def)

text \<open>
  C7. With memoization off, a call of \<^verbatim>\<open>forward\<close> leaves the object as it is, and so
  the parameters fixed, and the same call made again on it gives the identical result,
  a returned tuple or the exception.
\<close>

theorem forward_repeatable_memo_off:
  assumes "\<not> memoize_on m"
  shows "snd (forward m s a) = m \<and> forward (snd (forward m s a)) s a = forward m s a"
  using assms by (simp add: forward_memo_off)

theorem forward_repeatable_memo_off_witness:
  "\<not> memoize_on delta_model \<and>
   forward delta_model (vec [5, 7]) (vec [0, 1]) =
     (Inr (vec [7, 9], vec [3], vec [1 / 2], False), delta_model) \<and>
   forward (snd (forward delta_model (vec [5, 7]) (vec [0, 1]))) (vec [5, 7]) (vec [0, 1]) =
     (Inr (vec [7, 9], vec [3], vec [1 / 2], False), delta_model)"
  using forward_repeatable_memo_off [OF memoize_off_examples(1), of "vec [5, 7]" "vec [0, 1]"]
    memoize_off_examples(1) delta_model_call
  by simp







section \<open>Shape errors\<close>

text \<open>
  C8 (amended). For a predictor constructed with \<^verbatim>\<open>latent_state_dim = d\<close> and
  \<^verbatim>\<open>action_dim = ad\<close>, \<^verbatim>\<open>forward\<close> raises the shape error, and leaves the object
  as it was, whenever the concatenation is impossible (an operand has no axis, or, neither
  operand being a one-dimensional empty tensor, the axes before the last differ), and,
  when the call is not a memo hit, whenever the two widths together are not \<open>d + ad\<close>
  or, in delta mode, the latent width is neither \<open>d\<close> nor 1 while \<open>d\<close> is not 1.
\<close>

theorem forward_shape_error:
  assumes "constructed d ad m"
    and "shape s = [] \<or> shape a = [] \<or>
         (shape s \<noteq> [0] \<and> shape a \<noteq> [0] \<and> butlast (shape s) \<noteq> butlast (shape a)) \<or>
         (\<not> memo_hit m s a \<and> last (shape s) + last (shape a) \<noteq> d + ad) \<or>
         (\<not> memo_hit m s a \<and> delta_mode m \<and>
            last (shape s) \<noteq> d \<and> last (shape s) \<noteq> 1 \<and> d \<noteq> 1)"
  shows "forward m s a = (Inl RuntimeError, m)"
proof (cases "cat s a")
  case (Inl e)
  then show ?thesis by (simp add: forward_network error_eq)
next
  case (Inr x)
  have ranks: "shape s \<noteq> []" "shape a \<noteq> []" using cat_rank [OF Inr] by simp_all
  have compatible:
    "\<not> (shape s \<noteq> [0] \<and> shape a \<noteq> [0] \<and> butlast (shape s) \<noteq> butlast (shape a))"
    using Inr by (auto simp: cat_def split: if_splits)
  from assms(2) ranks compatible have miss: "\<not> memo_hit m s a" by blast
  then have lookup:
    "(if memoize_on m then dict_get (memos m) (HashedTensor x) else None) = None"
    using Inr by (cases "dict_get (memos m) (HashedTensor x)") (auto simp: memo_hit_def)
  from assms(2) ranks compatible
  consider "last (shape s) + last (shape a) \<noteq> d + ad"
    | "delta_mode m" "last (shape s) \<noteq> d" "last (shape s) \<noteq> 1" "d \<noteq> 1"
    by blast
  then have "network m s x = Inl RuntimeError"
  proof cases
    case 1
    then have "last (shape x) \<noteq> in_features (fc1 m)"
      using cat_width [OF Inr] assms(1) by (simp add: constructed_def)
    then show ?thesis by (rule network_fails_width)
  next
    case 2
    then show ?thesis
      using assms(1) ranks by (intro network_fails_delta) (simp_all add: constructed_def)
  qed
  then show ?thesis using Inr lookup by (simp add: forward_network)
qed

theorem forward_shape_error_witness:
  "forward absolute_model (vec [1, 2, 3]) (vec [1, 2]) = (Inl RuntimeError, absolute_model) \<and>
   forward delta_model (vec [1, 2, 3]) (vec [1]) = (Inl RuntimeError, delta_model) \<and>
   forward delta_model \<lparr>shape = [2, 2], elems = [1, 2, 3, 4]\<rparr> (vec [0, 1]) =
     (Inl RuntimeError, delta_model)"
proof -
  have 1: "forward absolute_model (vec [1, 2, 3]) (vec [1, 2]) =
      (Inl RuntimeError, absolute_model)"
    by (rule forward_shape_error [OF constructed_examples(2)])
      (simp add: no_hit_memo_off memoize_off_examples)
  have 2: "forward delta_model (vec [1, 2, 3]) (vec [1]) = (Inl RuntimeError, delta_model)"
    by (rule forward_shape_error [OF constructed_examples(1)])
      (simp add: no_hit_memo_off memoize_off_examples delta_model_def init_def)
  have 3: "forward delta_model \<lparr>shape = [2, 2], elems = [1, 2, 3, 4]\<rparr> (vec [0, 1]) =
      (Inl RuntimeError, delta_model)"
    by (rule forward_shape_error [OF constructed_examples(1)]) simp
  from 1 2 3 show ?thesis by simp
qed

text \<open>
C8 as it was stated fails: a predictor constructed for widths 2 and 2 in absolute
mode accepts a latent state of width 3 with an action of width 1, because only the
concatenated width reaches a check.
\<close>

theorem mismatched_widths_accepted:
  "constructed 2 2 absolute_model \<and>
   last (shape (vec [1, 2, 3])) = 3 \<and> last (shape (vec [1])) = 1 \<and>
   forward absolute_model (vec [1, 2, 3]) (vec [1]) =
     (Inr (vec [2, 2], vec [3], vec [1 / 2], False), absolute_model)"
  by (simp add: constructed_examples forward_network memoize_off_examples absolute_network)

section \<open>The two entry points\<close>

text \<open>
  C10. For every object and every input pair, \<^verbatim>\<open>run(latent_obs, action)\<close> gives the
  result of \<^verbatim>\<open>forward(latent_obs, action)\<close>: the same returned tuple or exception and the
  same object afterwards, so the same effect on the memo store.
\<close>

theorem run_eq_forward:
  "run self latent_obs action = forward self latent_obs action"
  by (simp add: run_def Module_call_def)

end
